theory Spec2Isabelle
  imports Complex_Main "HOL-Library.Log_Nat"
begin

section \<open>Go \<open>float64\<close> values\<close>

text \<open>
  The engine's thresholds are comparisons and one division on Go \<open>float64\<close> fields.
  Go evaluates them in IEEE 754 binary64 with round-to-nearest-even; a floating-point
  division by zero does not panic, it yields an infinity or a NaN. A finite value is
  represented by the real number it denotes (\<open>Finite 0\<close> is \<open>+0\<close>), the negative zero
  and the three special values are constructors of their own.
\<close>

datatype float64 = Finite real | NegZero | PosInf | NegInf | NaN

fun is_nan :: "float64 \<Rightarrow> bool" where
  "is_nan NaN = True"
| "is_nan _ = False"

fun is_inf :: "float64 \<Rightarrow> bool" where
  "is_inf PosInf = True"
| "is_inf NegInf = True"
| "is_inf _ = False"

fun is_zero :: "float64 \<Rightarrow> bool" where
  "is_zero (Finite r) = (r = 0)"
| "is_zero NegZero = True"
| "is_zero _ = False"

text \<open>The sign bit: \<open>True\<close> for a negative value, also for \<open>-0\<close>.\<close>

fun sign_bit :: "float64 \<Rightarrow> bool" where
  "sign_bit (Finite r) = (r < 0)"
| "sign_bit NegZero = True"
| "sign_bit NegInf = True"
| "sign_bit _ = False"

text \<open>The real value of a finite operand.\<close>

fun val :: "float64 \<Rightarrow> real" where
  "val (Finite r) = r"
| "val _ = 0"

definition mk_inf :: "bool \<Rightarrow> float64" where
  "mk_inf neg = (if neg then NegInf else PosInf)"

definition mk_zero :: "bool \<Rightarrow> float64" where
  "mk_zero neg = (if neg then NegZero else Finite 0)"

text \<open>
  The comparison \<open>a > b\<close>: false as soon as one side is a NaN; the two zeros are equal;
  the infinities lie outside every finite value.
\<close>

fun rank :: "float64 \<Rightarrow> int" where
  "rank PosInf = 1"
| "rank NegInf = - 1"
| "rank _ = 0"

definition f64_gt :: "float64 \<Rightarrow> float64 \<Rightarrow> bool" where
  "f64_gt a b =
     (if is_nan a \<or> is_nan b then False
      else rank a > rank b \<or> (rank a = rank b \<and> rank a = 0 \<and> val a > val b))"

definition f64_le :: "float64 \<Rightarrow> float64 \<Rightarrow> bool" where
  "f64_le a b =
     (if is_nan a \<or> is_nan b then False
      else rank a < rank b \<or> (rank a = rank b \<and> (rank a \<noteq> 0 \<or> val a \<le> val b)))"

subsection \<open>Rounding to binary64\<close>

text \<open>
  \<open>expo a\<close> is the binary exponent of a positive real: \<open>2 ^ expo a \<le> a < 2 ^ (expo a + 1)\<close>.
\<close>

definition expo :: "real \<Rightarrow> int" where
  "expo a =
     (if 1 \<le> a then int (floorlog 2 (nat \<lfloor>a\<rfloor>)) - 1
      else let k = int (floorlog 2 (nat \<lfloor>1 / a\<rfloor>)) - 1
           in if 2 powi (- k) \<le> a then - k else - k - 1)"

definition round_half_even :: "real \<Rightarrow> int" where
  "round_half_even r =
     (let f = \<lfloor>r\<rfloor>; d = r - of_int f
      in if d < 1 / 2 then f
         else if 1 / 2 < d then f + 1
         else if even f then f else f + 1)"

text \<open>
  Round-to-nearest, ties-to-even, with 53 bits of precision, the smallest exponent
  \<open>-1022\<close> (below it the spacing stays \<open>2 ^ -1074\<close>: subnormals) and overflow to an
  infinity from \<open>2 ^ 1024\<close> on. The argument is a nonzero real; a result that rounds to
  zero keeps the sign of the argument.
\<close>

definition round_f64 :: "real \<Rightarrow> float64" where
  "round_f64 x =
     (let a = \<bar>x\<bar>;
          e = max (expo a) (- 1022);
          q = 2 powi (e - 52);
          n = round_half_even (a / q);
          m = of_int n * q
      in if 2 powi 1024 \<le> m then mk_inf (x < 0)
         else if n = 0 then mk_zero (x < 0)
         else Finite (if x < 0 then - m else m))"

subsection \<open>Division and multiplication\<close>

definition f64_div :: "float64 \<Rightarrow> float64 \<Rightarrow> float64" where
  "f64_div a b =
     (let neg = (sign_bit a \<noteq> sign_bit b)
      in if is_nan a \<or> is_nan b then NaN
         else if is_inf a then (if is_inf b then NaN else mk_inf neg)
         else if is_inf b then mk_zero neg
         else if is_zero b then (if is_zero a then NaN else mk_inf neg)
         else if is_zero a then mk_zero neg
         else round_f64 (val a / val b))"

definition f64_mul :: "float64 \<Rightarrow> float64 \<Rightarrow> float64" where
  "f64_mul a b =
     (let neg = (sign_bit a \<noteq> sign_bit b)
      in if is_nan a \<or> is_nan b then NaN
         else if is_inf a \<or> is_inf b then
           (if is_zero a \<or> is_zero b then NaN else mk_inf neg)
         else if is_zero a \<or> is_zero b then mk_zero neg
         else round_f64 (val a * val b))"

subsection \<open>Formatting with \<open>%.1f\<close>\<close>

text \<open>
  \<open>fmt.Sprintf("%.1f", x)\<close> prints the exact value of \<open>x\<close> rounded to one decimal,
  ties to even, with a leading \<open>-\<close> for a set sign bit; the special values print as
  \<open>NaN\<close>, \<open>+Inf\<close> and \<open>-Inf\<close>.
\<close>

definition digit :: "nat \<Rightarrow> char" where
  "digit n = ''0123456789'' ! n"

function dec :: "nat \<Rightarrow> string" where
  "dec n = (if n < 10 then [digit n] else dec (n div 10) @ [digit (n mod 10)])"
  by pat_completeness auto
termination
  by (relation "measure id") auto

declare dec.simps [simp del]

fun fmt_1f :: "float64 \<Rightarrow> string" where
  "fmt_1f NaN = ''NaN''"
| "fmt_1f PosInf = ''+Inf''"
| "fmt_1f NegInf = ''-Inf''"
| "fmt_1f NegZero = ''-0.0''"
| "fmt_1f (Finite r) =
     (let t = nat (round_half_even (\<bar>r\<bar> * 10))
      in (if r < 0 then ''-'' else []) @ dec (t div 10) @ ''.'' @ dec (t mod 10))"

section \<open>The alert engine's data\<close>

text \<open>
  \<open>GPUMetric\<close> and \<open>Alert\<close> of \<open>alert_engine.go\<close>. Both structs have a \<open>NodeID\<close> and a
  \<open>GPUIndex\<close>; the fields of \<open>Alert\<close> carry the prefix \<open>Alert\<close> to keep the two apart.
  \<open>GPUIndex\<close> and \<open>SMClockMHz\<close> are Go \<open>int\<close>s that are only copied, never computed
  with; \<open>CollectedAt\<close> is a time stamp.
\<close>

record GPUMetric =
  NodeID :: string
  GPUIndex :: int
  TemperatureCelsius :: float64
  PowerWatts :: float64
  MemoryUsedMB :: float64
  MemoryTotalMB :: float64
  UtilizationPercent :: float64
  SMClockMHz :: int
  CollectedAt :: int

record Alert =
  AlertNodeID :: string
  AlertGPUIndex :: int
  AlertType :: string
  Severity :: string
  Message :: string
  ThresholdValue :: float64
  ActualValue :: float64

section \<open>Rule evaluation\<close>

text \<open>
  The source file spells the unit of the temperature message with the five bytes
  \<open>C2 AC E2 88 9E\<close> followed by \<open>C\<close>.
\<close>

definition degree_suffix :: string where
  "degree_suffix = [CHR 0xC2, CHR 0xAC, CHR 0xE2, CHR 0x88, CHR 0x9E, CHR ''C'']"

definition temperature_alert :: "GPUMetric \<Rightarrow> Alert" where
  "temperature_alert metric =
     \<lparr>AlertNodeID = NodeID metric,
      AlertGPUIndex = GPUIndex metric,
      AlertType = ''high_temperature'',
      Severity = (if f64_gt (TemperatureCelsius metric) (Finite 95) then ''critical''
                  else ''warning''),
      Message = ''GPU temperature is '' @ fmt_1f (TemperatureCelsius metric) @ degree_suffix,
      ThresholdValue = Finite 90,
      ActualValue = TemperatureCelsius metric\<rparr>"

definition power_alert :: "GPUMetric \<Rightarrow> Alert" where
  "power_alert metric =
     \<lparr>AlertNodeID = NodeID metric,
      AlertGPUIndex = GPUIndex metric,
      AlertType = ''high_power'',
      Severity = ''warning'',
      Message = ''GPU power consumption is '' @ fmt_1f (PowerWatts metric) @ ''W'',
      ThresholdValue = Finite 330,
      ActualValue = PowerWatts metric\<rparr>"

definition memoryPercent :: "GPUMetric \<Rightarrow> float64" where
  "memoryPercent metric =
     f64_mul (f64_div (MemoryUsedMB metric) (MemoryTotalMB metric)) (Finite 100)"

definition memory_alert :: "GPUMetric \<Rightarrow> Alert" where
  "memory_alert metric =
     \<lparr>AlertNodeID = NodeID metric,
      AlertGPUIndex = GPUIndex metric,
      AlertType = ''high_memory'',
      Severity = ''warning'',
      Message = ''GPU memory usage is '' @ fmt_1f (memoryPercent metric) @ ''%'',
      ThresholdValue = Finite 95,
      ActualValue = memoryPercent metric\<rparr>"

text \<open>
  \<open>EvaluateRules\<close>: the three rules in the order of the source, each appending to
  the slice \<open>alerts\<close>.
\<close>

definition EvaluateRules :: "GPUMetric \<Rightarrow> Alert list" where
  "EvaluateRules metric =
     (let alerts = [];
          alerts = (if f64_gt (TemperatureCelsius metric) (Finite 90)
                    then alerts @ [temperature_alert metric] else alerts);
          alerts = (if f64_gt (PowerWatts metric) (Finite 330)
                    then alerts @ [power_alert metric] else alerts);
          alerts = (if f64_gt (memoryPercent metric) (Finite 95)
                    then alerts @ [memory_alert metric] else alerts)
      in alerts)"

text \<open>The candidates of one alert type, in the order they were returned.\<close>

definition of_type :: "string \<Rightarrow> Alert list \<Rightarrow> Alert list" where
  "of_type t alerts = filter (\<lambda>a. AlertType a = t) alerts"

text \<open>A sample used to instantiate the theorems below: node \<open>node-1\<close>, GPU 0, with the
  given temperature, 300 W and half of 80000 MB in use.\<close>

definition sample :: "float64 \<Rightarrow> GPUMetric" where
  "sample t =
     \<lparr>NodeID = ''node-1'', GPUIndex = 0, TemperatureCelsius = t, PowerWatts = Finite 300,
      MemoryUsedMB = Finite 40000, MemoryTotalMB = Finite 80000,
      UtilizationPercent = Finite 50, SMClockMHz = 1410, CollectedAt = 0\<rparr>"

section \<open>The store and the queue\<close>

text \<open>
  The tables of \<open>init.sql\<close> that the engine and the query layer write: \<open>gpu_nodes\<close>,
  \<open>gpu_metrics\<close>, \<open>alerts\<close> and \<open>alert_actions\<close>. Time stamps are integers read from a
  clock of the store. \<open>action_details\<close> holds the marshalled \<open>map[string]interface{}\<close>
  as the key-value pairs themselves, in the key order \<open>json.Marshal\<close> writes; the
  \<open>nil\<close> map marshals to \<open>null\<close>.
\<close>

record NodeRow =
  node_id :: string
  hostname :: string
  datacenter :: string
  status :: string
  last_seen :: int
  created_at :: int

record AlertRow =
  alert_id :: int
  alert_fields :: Alert
  alert_status :: string
  triggered_at :: int
  resolved_at :: "int option"

datatype json_value = JString string | JInt int

datatype json = JNull | JObject "(string \<times> json_value) list"

record ActionRow =
  action_alert_id :: int
  action_type :: string
  action_status :: string
  action_details :: json
  executed_at :: int

text \<open>One call to the store, as the source issues it.\<close>

datatype store_call =
    InsertMetric GPUMetric
  | InsertAlert Alert
  | UpdateNodeStatus string
  | InsertAction int string
  | UpdateAlertResolved string

record kafka_message =
  msg_offset :: int
  msg_value :: string

text \<open>
  The world the engine runs in. \<open>faults\<close> is the schedule of the store: its head says
  whether the next call is rejected (a lost connection, a violated constraint, any error
  the driver returns), and every call consumes one entry; an empty schedule rejects
  nothing. \<open>calls\<close> records every call that was issued, in order, accepted or not.
  \<open>alerts_id_seq\<close> is the last value the sequence behind \<open>alerts.id\<close> has given out.
  \<open>committed\<close> are the messages passed to \<open>CommitMessages\<close>, \<open>logs\<close> the lines written
  with \<open>log.Printf\<close> (their fixed text).
\<close>

record world =
  gpu_nodes :: "NodeRow list"
  gpu_metrics :: "GPUMetric list"
  alerts :: "AlertRow list"
  alert_actions :: "ActionRow list"
  alerts_id_seq :: int
  clock :: int
  faults :: "bool list"
  calls :: "store_call list"
  committed :: "kafka_message list"
  logs :: "string list"
  reader_closed :: bool
  db_closed :: bool

datatype error = StoreError | ErrNoRows | DecodeError

definition issue :: "store_call \<Rightarrow> world \<Rightarrow> bool \<times> world" where
  "issue c w =
     (case faults w of
        [] \<Rightarrow> (False, w\<lparr>calls := calls w @ [c]\<rparr>)
      | f # fs \<Rightarrow> (f, w\<lparr>faults := fs, calls := calls w @ [c]\<rparr>))"

definition log_line :: "string \<Rightarrow> world \<Rightarrow> world" where
  "log_line l w = w\<lparr>logs := logs w @ [l]\<rparr>"

section \<open>The engine's operations\<close>

text \<open>\<open>StoreMetric\<close>: one \<open>INSERT INTO gpu_metrics\<close>; the error of \<open>Exec\<close> is returned.\<close>

definition StoreMetric :: "GPUMetric \<Rightarrow> world \<Rightarrow> error option \<times> world" where
  "StoreMetric metric w =
     (let (failed, w) = issue (InsertMetric metric) w
      in if failed then (Some StoreError, w)
         else (None, w\<lparr>gpu_metrics := gpu_metrics w @ [metric]\<rparr>))"

text \<open>
  \<open>TakeAction\<close>: the \<open>switch\<close> on the severity has the cases \<open>critical\<close> and \<open>warning\<close>
  and no \<open>default\<close>; for any other severity \<open>actionType\<close> stays the empty string and
  \<open>actionDetails\<close> the \<open>nil\<close> map. The error of the \<open>UPDATE\<close> is logged and dropped; the
  error of the final \<open>INSERT\<close> is the result.
\<close>

definition set_degraded :: "string \<Rightarrow> NodeRow list \<Rightarrow> NodeRow list" where
  "set_degraded n rows =
     map (\<lambda>r. if node_id r = n then r\<lparr>status := ''degraded''\<rparr> else r) rows"

definition critical_details :: "Alert \<Rightarrow> json" where
  "critical_details alert =
     JObject [(''action'', JString ''migrate_workloads''),
              (''from_gpu'', JInt (AlertGPUIndex alert)),
              (''from_node'', JString (AlertNodeID alert)),
              (''reason'', JString (Message alert))]"

definition warning_details :: "Alert \<Rightarrow> json" where
  "warning_details alert =
     JObject [(''action'', JString ''send_notification''),
              (''channel'', JString ''slack''),
              (''message'', JString (Message alert))]"

definition severity_case :: "Alert \<Rightarrow> world \<Rightarrow> (string \<times> json) \<times> world" where
  "severity_case alert w =
     (if Severity alert = ''critical'' then
        (let (failed, w) = issue (UpdateNodeStatus (AlertNodeID alert)) w;
             w = (if failed then log_line ''Failed to update node status'' w
                  else w\<lparr>gpu_nodes := set_degraded (AlertNodeID alert) (gpu_nodes w)\<rparr>);
             w = log_line ''CRITICAL ACTION: Initiating workload migration'' w
         in ((''workload_migration'', critical_details alert), w))
      else if Severity alert = ''warning'' then
        ((''notification'', warning_details alert),
         log_line ''WARNING: Sending notification'' w)
      else (([], JNull), w))"

definition action_row :: "int \<Rightarrow> string \<Rightarrow> json \<Rightarrow> int \<Rightarrow> ActionRow" where
  "action_row alertID actionType detailsJSON now =
     \<lparr>action_alert_id = alertID, action_type = actionType, action_status = ''executed'',
      action_details = detailsJSON, executed_at = now\<rparr>"

definition TakeAction :: "int \<Rightarrow> Alert \<Rightarrow> world \<Rightarrow> error option \<times> world" where
  "TakeAction alertID alert w =
     (let ((actionType, detailsJSON), w) = severity_case alert w;
          (failed, w) = issue (InsertAction alertID actionType) w
      in if failed then (Some StoreError, w)
         else (None, w\<lparr>alert_actions := alert_actions w @
                          [action_row alertID actionType detailsJSON (clock w)]\<rparr>))"

text \<open>
  \<open>CreateAlert\<close>: \<open>INSERT INTO alerts ... 'active' RETURNING id\<close>; on an error it returns
  at once, otherwise it logs the new id and returns what \<open>TakeAction\<close> returns.
\<close>

definition alert_row :: "int \<Rightarrow> Alert \<Rightarrow> int \<Rightarrow> AlertRow" where
  "alert_row alertID alert now =
     \<lparr>alert_id = alertID, alert_fields = alert, alert_status = ''active'',
      triggered_at = now, resolved_at = None\<rparr>"

definition CreateAlert :: "Alert \<Rightarrow> world \<Rightarrow> error option \<times> world" where
  "CreateAlert alert w =
     (let (failed, w) = issue (InsertAlert alert) w
      in if failed then (Some StoreError, w)
         else
           (let alertID = alerts_id_seq w + 1;
                w = w\<lparr>alerts := alerts w @ [alert_row alertID alert (clock w)],
                       alerts_id_seq := alertID\<rparr>;
                w = log_line ''Created alert'' w
            in TakeAction alertID alert w))"

section \<open>The consumer loop\<close>

text \<open>
  One turn of the \<open>default\<close> branch of \<open>Run\<close> after a successful fetch. The decoder
  \<open>json.Unmarshal\<close> is a parameter: it answers a payload with an error or a metric.
\<close>

definition commit :: "kafka_message \<Rightarrow> world \<Rightarrow> world" where
  "commit msg w = w\<lparr>committed := committed w @ [msg]\<rparr>"

fun create_alerts :: "Alert list \<Rightarrow> world \<Rightarrow> world" where
  "create_alerts [] w = w"
| "create_alerts (alert # rest) w =
     (let (err, w) = CreateAlert alert w;
          w = (if err \<noteq> None then log_line ''Error creating alert'' w else w)
      in create_alerts rest w)"

definition process_message ::
  "(string \<Rightarrow> error + GPUMetric) \<Rightarrow> kafka_message \<Rightarrow> world \<Rightarrow> world" where
  "process_message unmarshal msg w =
     (case unmarshal (msg_value msg) of
        Inl e \<Rightarrow> commit msg (log_line ''Error unmarshaling metric'' w)
      | Inr metric \<Rightarrow>
          (let (err, w) = StoreMetric metric w;
               w = (if err \<noteq> None then log_line ''Error storing metric'' w else w);
               w = create_alerts (EvaluateRules metric) w
           in commit msg w))"

text \<open>
  \<open>Run\<close> over the answers of \<open>FetchMessage\<close> up to the cancellation of the context: a
  failed fetch is logged and the loop continues; when the context is done the reader and
  the store are closed and \<open>Run\<close> returns.
\<close>

datatype fetch = FetchFailed | Fetched kafka_message

fun Run :: "(string \<Rightarrow> error + GPUMetric) \<Rightarrow> fetch list \<Rightarrow> world \<Rightarrow> world" where
  "Run unmarshal [] w =
     (log_line ''Alert Engine shutting down'' w)\<lparr>reader_closed := True, db_closed := True\<rparr>"
| "Run unmarshal (FetchFailed # rest) w =
     Run unmarshal rest (log_line ''Error fetching message'' w)"
| "Run unmarshal (Fetched msg # rest) w =
     Run unmarshal rest (process_message unmarshal msg w)"

section \<open>The query layer's \<open>resolveAlert\<close>\<close>

text \<open>
  The handler passes the path variable \<open>alert_id\<close>, a string, to
  \<open>UPDATE alerts SET status = 'resolved', resolved_at = NOW() WHERE id = $1 RETURNING id\<close>.
  The store converts the text to the integer type of \<open>alerts.id\<close>; that conversion is the
  parameter \<open>int4in\<close>, and a text it refuses is an error of the query. \<open>Scan\<close> answers a
  query without a row with \<open>sql.ErrNoRows\<close>. \<open>http.Error\<close> writes a plain text: the
  fixed \<open>Alert not found\<close> with status 404, the text of the error with status 500.
\<close>

datatype body = PlainText string | ErrorText error | JsonBody json

record response =
  status_code :: nat
  body :: body

definition resolve_rows :: "int \<Rightarrow> int \<Rightarrow> AlertRow list \<Rightarrow> AlertRow list" where
  "resolve_rows k now rows =
     map (\<lambda>r. if alert_id r = k then r\<lparr>alert_status := ''resolved'', resolved_at := Some now\<rparr>
               else r) rows"

definition query_resolve ::
  "(string \<Rightarrow> int option) \<Rightarrow> string \<Rightarrow> world \<Rightarrow> (error + int) \<times> world" where
  "query_resolve int4in alertID w =
     (let (failed, w) = issue (UpdateAlertResolved alertID) w
      in if failed then (Inl StoreError, w)
         else (case int4in alertID of
                 None \<Rightarrow> (Inl StoreError, w)
               | Some k \<Rightarrow>
                   if k \<in> alert_id ` set (alerts w)
                   then (Inr k, w\<lparr>alerts := resolve_rows k (clock w) (alerts w)\<rparr>)
                   else (Inl ErrNoRows, w)))"

definition resolveAlert ::
  "(string \<Rightarrow> int option) \<Rightarrow> string \<Rightarrow> world \<Rightarrow> response \<times> world" where
  "resolveAlert int4in alertID w =
     (case query_resolve int4in alertID w of
        (Inl ErrNoRows, w) \<Rightarrow>
          (\<lparr>status_code = 404, body = PlainText ''Alert not found''\<rparr>, w)
      | (Inl err, w) \<Rightarrow>
          (\<lparr>status_code = 500, body = ErrorText err\<rparr>, w)
      | (Inr k, w) \<Rightarrow>
          (\<lparr>status_code = 200,
            body = JsonBody (JObject [(''alert_id'', JInt k),
                                      (''message'', JString ''Alert resolved'')])\<rparr>,
           w))"

section \<open>Worlds and alerts used to instantiate the theorems\<close>

text \<open>
  \<open>accepted n w\<close>: the store rejects none of the next \<open>n\<close> calls.
\<close>

definition accepted :: "nat \<Rightarrow> world \<Rightarrow> bool" where
  "accepted n w = (True \<notin> set (take n (faults w)))"


text \<open>The two nodes that \<open>init.sql\<close> inserts, both healthy, and otherwise empty tables.\<close>

definition node_row :: "string \<Rightarrow> string \<Rightarrow> NodeRow" where
  "node_row n h =
     \<lparr>node_id = n, hostname = h, datacenter = ''us-west-1'', status = ''healthy'',
      last_seen = 0, created_at = 0\<rparr>"

definition world0 :: world where
  "world0 =
     \<lparr>gpu_nodes = [node_row ''node-1'' ''dgx-gpu-01.nvidia.com'',
                   node_row ''node-2'' ''dgx-gpu-02.nvidia.com''],
      gpu_metrics = [], alerts = [], alert_actions = [], alerts_id_seq = 0, clock = 0,
      faults = [], calls = [], committed = [], logs = [],
      reader_closed = False, db_closed = False\<rparr>"

definition critical_alert :: Alert where
  "critical_alert =
     \<lparr>AlertNodeID = ''node-1'', AlertGPUIndex = 0, AlertType = ''high_temperature'',
      Severity = ''critical'', Message = ''GPU temperature is 96.0'' @ degree_suffix,
      ThresholdValue = Finite 90, ActualValue = Finite 96\<rparr>"

definition warning_alert :: Alert where
  "warning_alert =
     \<lparr>AlertNodeID = ''node-1'', AlertGPUIndex = 0, AlertType = ''high_power'',
      Severity = ''warning'', Message = ''GPU power consumption is 340.0W'',
      ThresholdValue = Finite 330, ActualValue = Finite 340\<rparr>"

text \<open>An alert with a severity outside the two that \<open>EvaluateRules\<close> produces, and a
  world in which it is stored under the id 1.\<close>

definition info_alert :: Alert where
  "info_alert = warning_alert\<lparr>Severity := ''info''\<rparr>"

definition world_info :: world where
  "world_info = world0\<lparr>alerts := [alert_row 1 info_alert 0], alerts_id_seq := 1\<rparr>"

text \<open>
  The sequence behind \<open>alerts.id\<close> is ahead of every id an action row refers to (the
  foreign key of \<open>alert_actions\<close> and the sequence keep it so).
\<close>

definition wf_store :: "world \<Rightarrow> bool" where
  "wf_store w = (\<forall>r \<in> set (alert_actions w). action_alert_id r \<le> alerts_id_seq w)"

text \<open>A decoder and a text-to-integer conversion to run the handlers on: the decoder
  accepts the one payload \<open>ok\<close>, the conversion reads a nonempty string of decimal
  digits whose value fits the 32-bit column type and refuses every other text.\<close>

definition decode_sample :: "string \<Rightarrow> error + GPUMetric" where
  "decode_sample s = (if s = ''ok'' then Inr (sample (Finite 96)) else Inl DecodeError)"

definition digit_of :: "char \<Rightarrow> int option" where
  "digit_of c =
     map_of [(CHR ''0'', 0), (CHR ''1'', 1), (CHR ''2'', 2), (CHR ''3'', 3), (CHR ''4'', 4),
             (CHR ''5'', 5), (CHR ''6'', 6), (CHR ''7'', 7), (CHR ''8'', 8), (CHR ''9'', 9)] c"

fun digits_value :: "string \<Rightarrow> int \<Rightarrow> int option" where
  "digits_value [] acc = Some acc"
| "digits_value (c # cs) acc =
     (case digit_of c of None \<Rightarrow> None | Some d \<Rightarrow> digits_value cs (10 * acc + d))"

definition int4in_decimal :: "string \<Rightarrow> int option" where
  "int4in_decimal s =
     (if s = [] then None
      else case digits_value s 0 of
             None \<Rightarrow> None
           | Some v \<Rightarrow> if v \<le> 2147483647 then Some v else None)"

definition bad_msg :: kafka_message where
  "bad_msg = \<lparr>msg_offset = 0, msg_value = ''{''\<rparr>"

definition good_msg :: kafka_message where
  "good_msg = \<lparr>msg_offset = 1, msg_value = ''ok''\<rparr>"

section \<open>Properties of rule evaluation\<close>

subsection \<open>The exponent and the rounding of the last place\<close>

text \<open>
  \<open>expo\<close> brackets a positive real between two neighbouring powers of two, and
  \<open>round_half_even\<close> picks a nearest integer, the even one at a tie.
\<close>

lemma floor_pos_bounds:
  fixes a :: real
  assumes "1 \<le> a"
  defines "n \<equiv> nat \<lfloor>a\<rfloor>"
  shows "2 ^ (floorlog 2 n - 1) \<le> a \<and> a < 2 ^ floorlog 2 n"
proof -
  have n: "0 < n" using assms by (simp add: n_def)
  have fl: "real n \<le> a" "a < real n + 1"
    using assms by (simp_all add: n_def)
  from floorlog_bounds [OF n, of 2]
  have b: "2 ^ (floorlog 2 n - 1) \<le> n" "n < 2 ^ floorlog 2 n" by simp_all
  from b(1) have "(2::real) ^ (floorlog 2 n - 1) \<le> real n"
    by (metis of_nat_le_iff of_nat_numeral of_nat_power)
  with fl(1) have lo: "2 ^ (floorlog 2 n - 1) \<le> a" by linarith
  from b(2) have "n + 1 \<le> 2 ^ floorlog 2 n" by simp
  then have "real (n + 1) \<le> 2 ^ floorlog 2 n"
    by (metis of_nat_le_iff of_nat_numeral of_nat_power)
  with fl(2) have hi: "a < 2 ^ floorlog 2 n" by simp
  from lo hi show ?thesis ..
qed

lemma expo_bounds:
  assumes "0 < a"
  shows "2 powi (expo a) \<le> a \<and> a < 2 powi (expo a + 1)"
proof (cases "1 \<le> a")
  case True
  let ?n = "nat \<lfloor>a\<rfloor>"
  have pos: "0 < floorlog 2 ?n"
    using True by (simp add: floorlog_def)
  have e: "expo a = int (floorlog 2 ?n) - 1"
    using True by (simp add: expo_def)
  have e1: "expo a = int (floorlog 2 ?n - 1)" using e pos by simp
  have e2: "expo a + 1 = int (floorlog 2 ?n)" using e by simp
  from floor_pos_bounds [OF True] show ?thesis
    unfolding e2 unfolding e1 by (simp only: power_int_of_nat)
next
  case False
  then have a1: "a < 1" by simp
  let ?b = "1 / a"
  let ?n = "nat \<lfloor>?b\<rfloor>"
  have b1: "1 \<le> ?b" using assms a1 by simp
  have pos: "0 < floorlog 2 ?n"
    using b1 by (simp add: floorlog_def)
  define k where "k = int (floorlog 2 ?n) - 1"
  have k1: "k = int (floorlog 2 ?n - 1)" using pos by (simp add: k_def)
  have k2: "k + 1 = int (floorlog 2 ?n)" by (simp add: k_def)
  from floor_pos_bounds [OF b1]
  have bb: "2 powi k \<le> ?b" "?b < 2 powi (k + 1)"
    unfolding k2 unfolding k1 by (simp_all only: power_int_of_nat)
  have p1: "(0::real) < 2 powi k" and p2: "(0::real) < 2 powi (k + 1)" by simp_all
  have inv0: "(2::real) powi (- k) = inverse (2 powi k)"
    by (rule power_int_minus)
  have inv: "(2::real) powi (- (k + 1)) = inverse (2 powi (k + 1))"
    by (rule power_int_minus)
  have ia: "inverse ?b = a" by (simp add: inverse_eq_divide)
  from bb(1) p1 have "inverse ?b \<le> inverse (2 powi k)"
    by (rule le_imp_inverse_le)
  then have up: "a \<le> 2 powi (- k)"
    by (simp only: ia inv0)
  have bpos: "0 < ?b" using assms by simp
  from bb(2) bpos have "inverse (2 powi (k + 1)) < inverse ?b"
    by (rule less_imp_inverse_less)
  then have lo: "2 powi (- (k + 1)) < a"
    by (simp only: ia inv)
  have ex: "expo a = (if 2 powi (- k) \<le> a then - k else - k - 1)"
    using False by (simp add: expo_def k_def Let_def)
  show ?thesis
  proof (cases "2 powi (- k) \<le> a")
    case True
    then have e: "expo a = - k" by (simp only: ex if_True)
    have "(2::real) powi (- k) < 2 powi (- k + 1)"
      by (rule power_int_strict_increasing) simp_all
    with up have "a < 2 powi (- k + 1)" by (rule le_less_trans)
    with True show ?thesis unfolding e by (rule conjI)
  next
    case False
    then have e: "expo a = - k - 1" by (simp only: ex if_False)
    have m: "- k - 1 = - (k + 1)" by simp
    from lo have l: "2 powi (- k - 1) \<le> a" unfolding m by (rule less_imp_le)
    from False have h: "a < 2 powi (- k - 1 + 1)" by (simp add: not_le)
    from l h show ?thesis unfolding e by (rule conjI)
  qed
qed

lemma round_half_even_nearest: "\<bar>of_int (round_half_even r) - r\<bar> \<le> 1 / 2"
proof -
  have "of_int \<lfloor>r\<rfloor> \<le> r" "r < of_int \<lfloor>r\<rfloor> + 1" by linarith+
  then show ?thesis
    by (auto simp add: round_half_even_def Let_def)
qed

lemma round_half_even_tie:
  "r - of_int \<lfloor>r\<rfloor> = 1 / 2 \<Longrightarrow> even (round_half_even r)"
  by (simp add: round_half_even_def Let_def)

lemma round_half_even_int: "round_half_even (of_int n) = n"
  by (simp add: round_half_even_def Let_def)

subsection \<open>Rounding at known values\<close>

text \<open>
  The binary64 values of one third and one tenth, \<open>0x3FD5555555555555\<close> and
  \<open>0x3FB999999999999A\<close>, as \<open>round_f64\<close> computes them.
\<close>

lemma round_f64_third: "round_f64 (1 / 3) = Finite (6004799503160661 / 18014398509481984)"
  unfolding round_f64_def Let_def
  by (simp add: expo_def compute_floorlog round_half_even_def power_int_minus mk_inf_def mk_zero_def)

lemma round_f64_tenth: "round_f64 (1 / 10) = Finite (3602879701896397 / 36028797018963968)"
  unfolding round_f64_def Let_def
  by (simp add: expo_def compute_floorlog round_half_even_def power_int_minus mk_inf_def mk_zero_def)

lemma round_f64_neg: "round_f64 (- (1 / 10)) = Finite (- (3602879701896397 / 36028797018963968))"
  unfolding round_f64_def Let_def
  by (simp add: expo_def compute_floorlog round_half_even_def power_int_minus mk_inf_def mk_zero_def)

lemma round_f64_half: "round_f64 (1 / 2) = Finite (1 / 2)"
  unfolding round_f64_def Let_def
  by (simp add: expo_def compute_floorlog round_half_even_def power_int_minus mk_inf_def mk_zero_def)

lemma round_f64_50: "round_f64 50 = Finite 50"
  unfolding round_f64_def Let_def
  by (simp add: expo_def compute_floorlog round_half_even_def power_int_minus mk_inf_def mk_zero_def)

subsection \<open>The sample of 97.5 percent memory use\<close>

lemma expo_39_40: "expo (39 / 40) = - 1"
  by (simp add: expo_def compute_floorlog power_int_minus)

lemma round_39_40: "round_f64 (39 / 40) = Finite (8782019273372467 / 9007199254740992)"
  unfolding round_f64_def Let_def
  by (simp add: expo_39_40 round_half_even_def power_int_minus mk_inf_def mk_zero_def)

lemma div_78000_80000:
  "f64_div (Finite 78000) (Finite 80000) = Finite (8782019273372467 / 9007199254740992)"
  using round_39_40 by (simp add: f64_div_def)

lemma expo_quotient_100: "expo (219550481834311675 / 2251799813685248) = 6"
  by (simp add: expo_def compute_floorlog)

lemma round_quotient_100:
  "round_f64 (8782019273372467 / 9007199254740992 * 100) = Finite (195 / 2)"
  unfolding round_f64_def Let_def
  by (simp add: expo_quotient_100 round_half_even_def power_int_minus mk_inf_def mk_zero_def)

lemma mul_quotient_100:
  "f64_mul (Finite (8782019273372467 / 9007199254740992)) (Finite 100) = Finite (195 / 2)"
  using round_quotient_100 by (simp add: f64_mul_def)

lemma memoryPercent_78000_80000:
  "MemoryUsedMB m = Finite 78000 \<Longrightarrow> MemoryTotalMB m = Finite 80000 \<Longrightarrow>
   memoryPercent m = Finite (195 / 2)"
  by (simp add: memoryPercent_def div_78000_80000 mul_quotient_100)

lemma fmt_96: "fmt_1f (Finite 96) = ''96.0''"
  by (simp add: round_half_even_def dec.simps digit_def)

lemma fmt_340: "fmt_1f (Finite 340) = ''340.0''"
  by (simp add: round_half_even_def dec.simps digit_def)

lemma fmt_97_5: "fmt_1f (Finite (195 / 2)) = ''97.5''"
  by (simp add: round_half_even_def dec.simps digit_def)

text \<open>
  Claim C4. A sample with temperature 96, power 340, 78000 MB used of 80000 MB, whatever
  its other fields, is answered by exactly three alerts, in the order of the rules: a
  critical \<open>high_temperature\<close>, a warning \<open>high_power\<close> and a warning \<open>high_memory\<close>
  whose actual value is 97.5 (the binary64 quotient times 100 rounds to 97.5 exactly).
\<close>

theorem EvaluateRules_three_alerts:
  "EvaluateRules (m\<lparr>TemperatureCelsius := Finite 96, PowerWatts := Finite 340,
       MemoryUsedMB := Finite 78000, MemoryTotalMB := Finite 80000\<rparr>) =
     [\<lparr>AlertNodeID = NodeID m, AlertGPUIndex = GPUIndex m, AlertType = ''high_temperature'',
        Severity = ''critical'', Message = ''GPU temperature is 96.0'' @ degree_suffix,
        ThresholdValue = Finite 90, ActualValue = Finite 96\<rparr>,
      \<lparr>AlertNodeID = NodeID m, AlertGPUIndex = GPUIndex m, AlertType = ''high_power'',
        Severity = ''warning'', Message = ''GPU power consumption is 340.0W'',
        ThresholdValue = Finite 330, ActualValue = Finite 340\<rparr>,
      \<lparr>AlertNodeID = NodeID m, AlertGPUIndex = GPUIndex m, AlertType = ''high_memory'',
        Severity = ''warning'', Message = ''GPU memory usage is 97.5%'',
        ThresholdValue = Finite 95, ActualValue = Finite (195 / 2)\<rparr>]"
  by (simp add: EvaluateRules_def temperature_alert_def power_alert_def memory_alert_def
      memoryPercent_78000_80000 f64_gt_def fmt_96 fmt_340 fmt_97_5 del: fmt_1f.simps)

subsection \<open>The three rules one at a time\<close>

lemma of_type_temperature:
  "of_type ''high_temperature'' (EvaluateRules m) =
     (if f64_gt (TemperatureCelsius m) (Finite 90) then [temperature_alert m] else [])"
  by (auto simp add: of_type_def EvaluateRules_def Let_def temperature_alert_def
      power_alert_def memory_alert_def)

lemma of_type_memory:
  "of_type ''high_memory'' (EvaluateRules m) =
     (if f64_gt (memoryPercent m) (Finite 95) then [memory_alert m] else [])"
  by (auto simp add: of_type_def EvaluateRules_def Let_def temperature_alert_def
      power_alert_def memory_alert_def)

text \<open>
  Claim C3. A temperature above 95 gives one \<open>high_temperature\<close> alert, critical, with
  threshold 90; a temperature above 90 and at most 95 gives one, a warning, with threshold
  90; a temperature of at most 90 gives none.
\<close>

theorem high_temperature_rule:
  "(f64_gt (TemperatureCelsius m) (Finite 95) \<longrightarrow>
      map (\<lambda>a. (Severity a, ThresholdValue a))
        (of_type ''high_temperature'' (EvaluateRules m)) = [(''critical'', Finite 90)]) \<and>
   (f64_gt (TemperatureCelsius m) (Finite 90) \<and> f64_le (TemperatureCelsius m) (Finite 95) \<longrightarrow>
      map (\<lambda>a. (Severity a, ThresholdValue a))
        (of_type ''high_temperature'' (EvaluateRules m)) = [(''warning'', Finite 90)]) \<and>
   (f64_le (TemperatureCelsius m) (Finite 90) \<longrightarrow>
      of_type ''high_temperature'' (EvaluateRules m) = [])"
  by (cases "TemperatureCelsius m")
     (auto simp add: of_type_temperature temperature_alert_def f64_gt_def f64_le_def)

theorem high_temperature_rule_witness:
  "f64_gt (Finite 96) (Finite 95) \<and>
   map (\<lambda>a. (Severity a, ThresholdValue a))
     (of_type ''high_temperature'' (EvaluateRules (sample (Finite 96))))
       = [(''critical'', Finite 90)] \<and>
   f64_gt (Finite 93) (Finite 90) \<and> f64_le (Finite 93) (Finite 95) \<and>
   map (\<lambda>a. (Severity a, ThresholdValue a))
     (of_type ''high_temperature'' (EvaluateRules (sample (Finite 93))))
       = [(''warning'', Finite 90)] \<and>
   f64_le (Finite 80) (Finite 90) \<and>
   of_type ''high_temperature'' (EvaluateRules (sample (Finite 80))) = []"
  using high_temperature_rule [of "sample (Finite 96)"]
    high_temperature_rule [of "sample (Finite 93)"]
    high_temperature_rule [of "sample (Finite 80)"]
  by (simp add: sample_def f64_gt_def f64_le_def)

text \<open>
  Claim C10. The alerts of one sample hold at most one alert of each type, hence at most
  three, and each carries the node id and the GPU index of the sample.
\<close>

theorem EvaluateRules_one_per_type:
  "(\<forall>t. length (of_type t (EvaluateRules m)) \<le> 1) \<and>
   length (EvaluateRules m) \<le> 3 \<and>
   (\<forall>a \<in> set (EvaluateRules m). AlertNodeID a = NodeID m \<and> AlertGPUIndex a = GPUIndex m)"
  by (auto simp add: of_type_def EvaluateRules_def Let_def temperature_alert_def
      power_alert_def memory_alert_def)

theorem EvaluateRules_one_per_type_witness:
  "temperature_alert (sample (Finite 96)) \<in> set (EvaluateRules (sample (Finite 96))) \<and>
   AlertNodeID (temperature_alert (sample (Finite 96))) = ''node-1'' \<and>
   AlertGPUIndex (temperature_alert (sample (Finite 96))) = 0 \<and>
   length (of_type ''high_temperature'' (EvaluateRules (sample (Finite 96)))) \<le> 1"
proof -
  have mem: "temperature_alert (sample (Finite 96)) \<in> set (EvaluateRules (sample (Finite 96)))"
    by (simp add: EvaluateRules_def Let_def sample_def f64_gt_def)
  with EvaluateRules_one_per_type [of "sample (Finite 96)"] show ?thesis
    by (simp add: sample_def)
qed

lemma memoryPercent_zero_total:
  "is_zero (MemoryTotalMB m) \<Longrightarrow> f64_gt (memoryPercent m) (Finite 95) \<Longrightarrow>
   memoryPercent m = PosInf"
  by (cases "MemoryUsedMB m"; cases "MemoryTotalMB m")
     (auto simp add: memoryPercent_def f64_div_def f64_mul_def f64_gt_def mk_inf_def mk_zero_def
       split: if_splits)

text \<open>
  Claim C1, as the code has it. A float64 division by zero raises no fault in Go: the
  quotient is an infinity or a NaN, and \<open>EvaluateRules\<close> returns its list as for any other
  sample. With a total of zero (\<open>+0\<close> or \<open>-0\<close>) the \<open>high_memory\<close> rule fires exactly when
  the quotient is \<open>+Inf\<close>: the used amount is neither NaN nor zero and has the sign of the
  zero. It then gives one warning with threshold 95 and the actual value \<open>+Inf\<close>. It does
  not fire when the used amount is zero, a NaN, or of the other sign.
\<close>

theorem high_memory_zero_total:
  "is_zero (MemoryTotalMB m) \<Longrightarrow>
   (of_type ''high_memory'' (EvaluateRules m) \<noteq> []) =
     (\<not> is_nan (MemoryUsedMB m) \<and> \<not> is_zero (MemoryUsedMB m) \<and>
      sign_bit (MemoryUsedMB m) = sign_bit (MemoryTotalMB m)) \<and>
   map (\<lambda>a. (Severity a, ThresholdValue a, ActualValue a))
     (of_type ''high_memory'' (EvaluateRules m)) =
     (if \<not> is_nan (MemoryUsedMB m) \<and> \<not> is_zero (MemoryUsedMB m) \<and>
         sign_bit (MemoryUsedMB m) = sign_bit (MemoryTotalMB m)
      then [(''warning'', Finite 95, PosInf)] else [])"
proof -
  assume z: "is_zero (MemoryTotalMB m)"
  have fires: "f64_gt (memoryPercent m) (Finite 95) =
     (\<not> is_nan (MemoryUsedMB m) \<and> \<not> is_zero (MemoryUsedMB m) \<and>
      sign_bit (MemoryUsedMB m) = sign_bit (MemoryTotalMB m))"
    using z
    by (cases "MemoryUsedMB m"; cases "MemoryTotalMB m")
       (auto simp add: memoryPercent_def f64_div_def f64_mul_def f64_gt_def mk_inf_def mk_zero_def)
  have inf: "f64_gt (memoryPercent m) (Finite 95) \<Longrightarrow> memoryPercent m = PosInf"
    using z by (rule memoryPercent_zero_total)
  show ?thesis
  proof (cases "f64_gt (memoryPercent m) (Finite 95)")
    case True
    with fires inf show ?thesis
      by (simp add: of_type_memory memory_alert_def)
  next
    case False
    with fires show ?thesis
      by (simp add: of_type_memory)
  qed
qed

theorem high_memory_zero_total_witness:
  "is_zero (MemoryTotalMB ((sample (Finite 80))\<lparr>MemoryUsedMB := Finite 0, MemoryTotalMB := Finite 0\<rparr>)) \<and>
   of_type ''high_memory''
     (EvaluateRules ((sample (Finite 80))\<lparr>MemoryUsedMB := Finite 0, MemoryTotalMB := Finite 0\<rparr>)) = []"
  using high_memory_zero_total
    [of "(sample (Finite 80))\<lparr>MemoryUsedMB := Finite 0, MemoryTotalMB := Finite 0\<rparr>"]
  by (simp add: sample_def)

text \<open>
  One MB used of a total of zero: the quotient is \<open>+Inf\<close>, the percentage is \<open>+Inf\<close>, and
  the rule fires with that actual value.
\<close>

theorem high_memory_zero_total_fires:
  "is_zero (MemoryTotalMB ((sample (Finite 80))\<lparr>MemoryUsedMB := Finite 1, MemoryTotalMB := Finite 0\<rparr>)) \<and>
   EvaluateRules ((sample (Finite 80))\<lparr>MemoryUsedMB := Finite 1, MemoryTotalMB := Finite 0\<rparr>) =
     [\<lparr>AlertNodeID = ''node-1'', AlertGPUIndex = 0, AlertType = ''high_memory'',
        Severity = ''warning'', Message = ''GPU memory usage is +Inf%'',
        ThresholdValue = Finite 95, ActualValue = PosInf\<rparr>]"
  by (simp add: sample_def EvaluateRules_def Let_def memory_alert_def memoryPercent_def
      f64_div_def f64_mul_def f64_gt_def mk_inf_def mk_zero_def)

section \<open>Properties of the store operations\<close>

subsection \<open>The invariant of the store\<close>

text \<open>
  \<open>wf_store\<close> holds for the initial tables and is kept by every step of the engine,
  whatever the store rejects.
\<close>

lemma wf_store_issue: "wf_store (snd (issue c w)) = wf_store w"
  by (simp add: issue_def wf_store_def split: list.splits)

lemma wf_store_TakeAction:
  "wf_store w \<Longrightarrow> alertID \<le> alerts_id_seq w \<Longrightarrow> wf_store (snd (TakeAction alertID alert w))"
  by (cases "faults w"; cases "tl (faults w)")
     (auto simp add: TakeAction_def severity_case_def issue_def wf_store_def Let_def log_line_def
       action_row_def split: prod.splits)

lemma wf_store_CreateAlert: "wf_store w \<Longrightarrow> wf_store (snd (CreateAlert alert w))"
proof (cases "fst (issue (InsertAlert alert) w)")
  case True
  assume "wf_store w"
  with True show ?thesis
    by (cases "issue (InsertAlert alert) w")
       (auto simp add: CreateAlert_def Let_def issue_def wf_store_def split: list.splits)
next
  case False
  assume wf: "wf_store w"
  obtain w1 where i: "issue (InsertAlert alert) w = (False, w1)"
    using False by (cases "issue (InsertAlert alert) w") auto
  have w1: "alert_actions w1 = alert_actions w" "alerts_id_seq w1 = alerts_id_seq w"
    using i by (auto simp add: issue_def split: list.splits)
  let ?w2 = "log_line ''Created alert''
      (w1\<lparr>alerts := alerts w1 @ [alert_row (alerts_id_seq w1 + 1) alert (clock w1)],
          alerts_id_seq := alerts_id_seq w1 + 1\<rparr>)"
  have "wf_store ?w2"
    using wf w1 by (force simp add: wf_store_def log_line_def)
  moreover have "alerts_id_seq w1 + 1 \<le> alerts_id_seq ?w2"
    by (simp add: log_line_def)
  ultimately have "wf_store (snd (TakeAction (alerts_id_seq w1 + 1) alert ?w2))"
    by (rule wf_store_TakeAction)
  then show ?thesis
    by (simp add: CreateAlert_def i Let_def)
qed

lemma wf_store_create_alerts: "wf_store w \<Longrightarrow> wf_store (create_alerts as w)"
proof (induction as arbitrary: w)
  case Nil
  then show ?case by simp
next
  case (Cons a as)
  from Cons.prems have "wf_store (snd (CreateAlert a w))"
    by (rule wf_store_CreateAlert)
  then have "wf_store (if fst (CreateAlert a w) \<noteq> None
      then log_line ''Error creating alert'' (snd (CreateAlert a w)) else snd (CreateAlert a w))"
    by (simp add: wf_store_def log_line_def)
  then have "wf_store (create_alerts as (if fst (CreateAlert a w) \<noteq> None
      then log_line ''Error creating alert'' (snd (CreateAlert a w)) else snd (CreateAlert a w)))"
    by (rule Cons.IH)
  then show ?case
    by (simp add: Let_def split_beta)
qed

lemma wf_store_process_message:
  "wf_store w \<Longrightarrow> wf_store (process_message unmarshal msg w)"
proof (cases "unmarshal (msg_value msg)")
  case (Inl e)
  assume "wf_store w"
  with Inl show ?thesis
    by (simp add: process_message_def commit_def log_line_def wf_store_def)
next
  case (Inr metric)
  assume wf: "wf_store w"
  have "wf_store (snd (StoreMetric metric w))"
    using wf by (simp add: StoreMetric_def issue_def wf_store_def Let_def split: list.splits)
  then have "wf_store (if fst (StoreMetric metric w) \<noteq> None
      then log_line ''Error storing metric'' (snd (StoreMetric metric w))
      else snd (StoreMetric metric w))"
    by (simp add: wf_store_def log_line_def)
  then have "wf_store (create_alerts (EvaluateRules metric)
      (if fst (StoreMetric metric w) \<noteq> None
       then log_line ''Error storing metric'' (snd (StoreMetric metric w))
       else snd (StoreMetric metric w)))"
    by (rule wf_store_create_alerts)
  then have "wf_store (commit msg (create_alerts (EvaluateRules metric)
      (if fst (StoreMetric metric w) \<noteq> None
       then log_line ''Error storing metric'' (snd (StoreMetric metric w))
       else snd (StoreMetric metric w))))"
    by (simp add: commit_def wf_store_def)
  then show ?thesis
    using Inr by (simp add: process_message_def Let_def split_beta)
qed

lemma wf_store_Run: "wf_store w \<Longrightarrow> wf_store (Run unmarshal evs w)"
proof (induction evs arbitrary: w)
  case Nil
  then show ?case by (simp add: wf_store_def log_line_def)
next
  case (Cons ev evs)
  show ?case
  proof (cases ev)
    case FetchFailed
    from Cons.prems have "wf_store (log_line ''Error fetching message'' w)"
      by (simp add: wf_store_def log_line_def)
    then show ?thesis using FetchFailed Cons.IH by simp
  next
    case (Fetched msg)
    from Cons.prems have "wf_store (process_message unmarshal msg w)"
      by (rule wf_store_process_message)
    then show ?thesis using Fetched Cons.IH by simp
  qed
qed

lemma wf_store_world0: "wf_store world0"
  by (simp add: wf_store_def world0_def)

subsection \<open>Alerts and actions\<close>










text \<open>
  Claim C9. For a critical alert whose final \<open>INSERT\<close> the store accepts, the action row
  is written with the status \<open>executed\<close> whether the \<open>UPDATE\<close> of the node status was
  accepted or rejected; when it was rejected, the nodes are unchanged, the rejection is
  only logged, and \<open>TakeAction\<close> still returns no error.
\<close>

theorem TakeAction_critical_update_rejected:
  assumes "Severity alert = ''critical''" and "faults w = update_fails # False # fs"
  shows "fst (TakeAction alertID alert w) = None \<and>
         alert_actions (snd (TakeAction alertID alert w)) =
           alert_actions w @
             [action_row alertID ''workload_migration'' (critical_details alert) (clock w)] \<and>
         action_status (last (alert_actions (snd (TakeAction alertID alert w)))) = ''executed'' \<and>
         (update_fails \<longrightarrow>
            gpu_nodes (snd (TakeAction alertID alert w)) = gpu_nodes w \<and>
            logs (snd (TakeAction alertID alert w)) =
              logs w @ [''Failed to update node status'',
                        ''CRITICAL ACTION: Initiating workload migration''])"
  using assms
  by (auto simp add: TakeAction_def severity_case_def issue_def Let_def log_line_def action_row_def
       split: prod.splits)

theorem TakeAction_critical_update_rejected_witness:
  "Severity critical_alert = ''critical'' \<and>
   faults (world_info\<lparr>faults := [True, False]\<rparr>) = [True, False] \<and>
   fst (TakeAction 1 critical_alert (world_info\<lparr>faults := [True, False]\<rparr>)) = None \<and>
   map (\<lambda>r. (action_alert_id r, action_type r, action_status r))
     (alert_actions (snd (TakeAction 1 critical_alert (world_info\<lparr>faults := [True, False]\<rparr>))))
     = [(1, ''workload_migration'', ''executed'')] \<and>
   map (\<lambda>n. (node_id n, status n))
     (gpu_nodes (snd (TakeAction 1 critical_alert (world_info\<lparr>faults := [True, False]\<rparr>))))
     = [(''node-1'', ''healthy''), (''node-2'', ''healthy'')]"
proof -
  have h: "Severity critical_alert = ''critical''" by (simp add: critical_alert_def)
  have f: "faults (world_info\<lparr>faults := [True, False]\<rparr>) = [True, False]" by simp
  have e: "alert_actions (world_info\<lparr>faults := [True, False]\<rparr>) = []"
    "gpu_nodes (world_info\<lparr>faults := [True, False]\<rparr>) = gpu_nodes world0"
    by (simp_all add: world_info_def world0_def)
  from TakeAction_critical_update_rejected [OF h f, of 1] h show ?thesis
    by (simp add: e action_row_def world0_def node_row_def)
qed

text \<open>
  Claim C2, as the code has it. For a severity that is neither \<open>critical\<close> nor \<open>warning\<close>
  \<open>TakeAction\<close> signals nothing of its own: it touches no node, logs nothing, and issues
  the \<open>INSERT\<close> of an action with the empty action type; it returns an error only when
  the store rejects that \<open>INSERT\<close>, and otherwise an action row with the empty type, the
  status \<open>executed\<close> and the details \<open>null\<close> has been recorded.
\<close>

theorem TakeAction_other_severity:
  assumes "Severity alert \<noteq> ''critical''" and "Severity alert \<noteq> ''warning''"
  shows "gpu_nodes (snd (TakeAction alertID alert w)) = gpu_nodes w \<and>
         logs (snd (TakeAction alertID alert w)) = logs w \<and>
         calls (snd (TakeAction alertID alert w)) = calls w @ [InsertAction alertID []] \<and>
         fst (TakeAction alertID alert w) =
           (if accepted 1 w then None else Some StoreError) \<and>
         alert_actions (snd (TakeAction alertID alert w)) =
           (if accepted 1 w then alert_actions w @ [action_row alertID [] JNull (clock w)]
            else alert_actions w)"
  using assms
  by (cases "faults w")
     (auto simp add: TakeAction_def severity_case_def issue_def accepted_def Let_def
       split: prod.splits)

theorem TakeAction_other_severity_witness:
  "Severity info_alert \<noteq> ''critical'' \<and> Severity info_alert \<noteq> ''warning'' \<and>
   fst (TakeAction 1 info_alert (world_info\<lparr>faults := [True]\<rparr>)) = Some StoreError \<and>
   alert_actions (snd (TakeAction 1 info_alert (world_info\<lparr>faults := [True]\<rparr>))) = []"
  using TakeAction_other_severity [of info_alert 1 "world_info\<lparr>faults := [True]\<rparr>"]
  by (simp add: info_alert_def warning_alert_def world_info_def world0_def accepted_def)

text \<open>
  An alert with the severity \<open>info\<close>, stored under the id 1: \<open>TakeAction\<close> returns no
  error and records an executed action with the empty type.
\<close>

theorem TakeAction_info_severity_proceeds:
  "Severity info_alert \<noteq> ''critical'' \<and> Severity info_alert \<noteq> ''warning'' \<and>
   TakeAction 1 info_alert world_info =
     (None, world_info\<lparr>calls := [InsertAction 1 []],
              alert_actions := [\<lparr>action_alert_id = 1, action_type = [],
                 action_status = ''executed'', action_details = JNull, executed_at = 0\<rparr>]\<rparr>)"
  by (simp add: info_alert_def warning_alert_def world_info_def world0_def TakeAction_def
      severity_case_def issue_def action_row_def)

subsection \<open>Resolving an alert\<close>

lemma resolve_rows_ids: "map alert_id (resolve_rows k now rows) = map alert_id rows"
  by (induction rows) (simp_all add: resolve_rows_def)

lemma resolve_rows_hit:
  "r \<in> set (resolve_rows k now rows) \<Longrightarrow> alert_id r = k \<Longrightarrow>
   alert_status r = ''resolved'' \<and> resolved_at r = Some now"
proof -
  assume a: "r \<in> set (resolve_rows k now rows)" and b: "alert_id r = k"
  from a obtain x where x: "x \<in> set rows"
    and r: "r = (if alert_id x = k then x\<lparr>alert_status := ''resolved'', resolved_at := Some now\<rparr>
                 else x)"
    unfolding resolve_rows_def by auto
  show ?thesis
  proof (cases "alert_id x = k")
    case True
    with r show ?thesis by simp
  next
    case False
    with r b show ?thesis by simp
  qed
qed

lemma resolve_rows_others:
  "filter (\<lambda>r. alert_id r \<noteq> k) (resolve_rows k now rows) = filter (\<lambda>r. alert_id r \<noteq> k) rows"
  by (induction rows) (simp_all add: resolve_rows_def)

lemma resolve_rows_fields:
  "map alert_fields (resolve_rows k now rows) = map alert_fields rows"
  by (induction rows) (simp_all add: resolve_rows_def)

lemma query_resolve_accepted:
  assumes "accepted 1 w"
  shows "query_resolve int4in alertID w =
     (let w' = w\<lparr>faults := tl (faults w), calls := calls w @ [UpdateAlertResolved alertID]\<rparr>
      in case int4in alertID of
           None \<Rightarrow> (Inl StoreError, w')
         | Some k \<Rightarrow>
             if k \<in> alert_id ` set (alerts w)
             then (Inr k, w'\<lparr>alerts := resolve_rows k (clock w) (alerts w)\<rparr>)
             else (Inl ErrNoRows, w'))"
  using assms
  by (cases w; cases "faults w")
     (auto simp add: query_resolve_def issue_def accepted_def Let_def split: option.splits)

lemma query_resolve_rejected:
  assumes "\<not> accepted 1 w"
  shows "fst (query_resolve int4in alertID w) = Inl StoreError"
  using assms
  by (cases "faults w") (auto simp add: query_resolve_def issue_def accepted_def Let_def)

text \<open>
  Claim C7, as the code has it. The handler passes the path segment to the query as it
  is. When the store accepts the query and converts the segment to the integer \<open>k\<close>: if
  no alert row has the id \<open>k\<close> the answer is 404 with \<open>Alert not found\<close> and no row
  changes; if a row has it the answer is 200, the rows with that id become \<open>resolved\<close>
  with \<open>resolved_at\<close> set to the clock, and the other rows stay as they were. A segment
  that the store cannot convert to an integer matches no alert either, but it is answered
  like a query the store rejects: 500 with the text of the error, and no row changes.
\<close>

theorem resolveAlert_outcomes:
  "(accepted 1 w \<and> int4in alertID = Some k \<and> k \<notin> alert_id ` set (alerts w) \<longrightarrow>
      status_code (fst (resolveAlert int4in alertID w)) = 404 \<and>
      body (fst (resolveAlert int4in alertID w)) = PlainText ''Alert not found'' \<and>
      alerts (snd (resolveAlert int4in alertID w)) = alerts w) \<and>
   (accepted 1 w \<and> int4in alertID = Some k \<and> k \<in> alert_id ` set (alerts w) \<longrightarrow>
      status_code (fst (resolveAlert int4in alertID w)) = 200 \<and>
      (\<forall>r \<in> set (alerts (snd (resolveAlert int4in alertID w))).
         alert_id r = k \<longrightarrow> alert_status r = ''resolved'' \<and> resolved_at r = Some (clock w)) \<and>
      map alert_id (alerts (snd (resolveAlert int4in alertID w))) = map alert_id (alerts w) \<and>
      filter (\<lambda>r. alert_id r \<noteq> k) (alerts (snd (resolveAlert int4in alertID w))) =
        filter (\<lambda>r. alert_id r \<noteq> k) (alerts w)) \<and>
   (accepted 1 w \<and> int4in alertID = None \<longrightarrow>
      status_code (fst (resolveAlert int4in alertID w)) = 500 \<and>
      body (fst (resolveAlert int4in alertID w)) = ErrorText StoreError \<and>
      alerts (snd (resolveAlert int4in alertID w)) = alerts w) \<and>
   (\<not> accepted 1 w \<longrightarrow>
      status_code (fst (resolveAlert int4in alertID w)) = 500 \<and>
      body (fst (resolveAlert int4in alertID w)) = ErrorText StoreError \<and>
      alerts (snd (resolveAlert int4in alertID w)) = alerts w)"
proof (intro conjI impI)
  assume a: "accepted 1 w \<and> int4in alertID = Some k \<and> k \<notin> alert_id ` set (alerts w)"
  then have q: "query_resolve int4in alertID w =
      (Inl ErrNoRows, w\<lparr>faults := tl (faults w), calls := calls w @ [UpdateAlertResolved alertID]\<rparr>)"
    by (simp add: query_resolve_accepted)
  show "status_code (fst (resolveAlert int4in alertID w)) = 404"
    "body (fst (resolveAlert int4in alertID w)) = PlainText ''Alert not found''"
    "alerts (snd (resolveAlert int4in alertID w)) = alerts w"
    by (simp_all add: resolveAlert_def q)
next
  assume a: "accepted 1 w \<and> int4in alertID = Some k \<and> k \<in> alert_id ` set (alerts w)"
  then have q: "query_resolve int4in alertID w =
      (Inr k, w\<lparr>faults := tl (faults w), calls := calls w @ [UpdateAlertResolved alertID],
                 alerts := resolve_rows k (clock w) (alerts w)\<rparr>)"
    by (simp add: query_resolve_accepted)
  have al: "alerts (snd (resolveAlert int4in alertID w)) = resolve_rows k (clock w) (alerts w)"
    by (simp add: resolveAlert_def q)
  show "status_code (fst (resolveAlert int4in alertID w)) = 200"
    by (simp add: resolveAlert_def q)
  show "\<forall>r \<in> set (alerts (snd (resolveAlert int4in alertID w))).
         alert_id r = k \<longrightarrow> alert_status r = ''resolved'' \<and> resolved_at r = Some (clock w)"
    unfolding al using resolve_rows_hit by blast
  show "map alert_id (alerts (snd (resolveAlert int4in alertID w))) = map alert_id (alerts w)"
    unfolding al by (rule resolve_rows_ids)
  show "filter (\<lambda>r. alert_id r \<noteq> k) (alerts (snd (resolveAlert int4in alertID w))) =
        filter (\<lambda>r. alert_id r \<noteq> k) (alerts w)"
    unfolding al by (rule resolve_rows_others)
next
  assume a: "accepted 1 w \<and> int4in alertID = None"
  then have q: "query_resolve int4in alertID w =
      (Inl StoreError, w\<lparr>faults := tl (faults w), calls := calls w @ [UpdateAlertResolved alertID]\<rparr>)"
    by (simp add: query_resolve_accepted)
  show "status_code (fst (resolveAlert int4in alertID w)) = 500"
    "body (fst (resolveAlert int4in alertID w)) = ErrorText StoreError"
    "alerts (snd (resolveAlert int4in alertID w)) = alerts w"
    by (simp_all add: resolveAlert_def q)
next
  assume n: "\<not> accepted 1 w"
  then obtain fs where f: "faults w = True # fs"
    by (cases "faults w") (auto simp add: accepted_def)
  have q: "query_resolve int4in alertID w =
      (Inl StoreError, w\<lparr>faults := fs, calls := calls w @ [UpdateAlertResolved alertID]\<rparr>)"
    by (simp add: query_resolve_def issue_def f)
  show "status_code (fst (resolveAlert int4in alertID w)) = 500"
    "body (fst (resolveAlert int4in alertID w)) = ErrorText StoreError"
    "alerts (snd (resolveAlert int4in alertID w)) = alerts w"
    by (simp_all add: resolveAlert_def q)
qed

theorem resolveAlert_outcomes_witness:
  "accepted 1 world_info \<and> int4in_decimal ''7'' = Some 7 \<and>
   7 \<notin> alert_id ` set (alerts world_info) \<and>
   status_code (fst (resolveAlert int4in_decimal ''7'' world_info)) = 404 \<and>
   int4in_decimal ''1'' = Some 1 \<and> 1 \<in> alert_id ` set (alerts world_info) \<and>
   status_code (fst (resolveAlert int4in_decimal ''1'' world_info)) = 200 \<and>
   map (\<lambda>r. (alert_id r, alert_status r, resolved_at r))
     (alerts (snd (resolveAlert int4in_decimal ''1'' world_info))) = [(1, ''resolved'', Some 0)] \<and>
   int4in_decimal ''99999999999'' = None \<and>
   status_code (fst (resolveAlert int4in_decimal ''99999999999'' world_info)) = 500 \<and>
   \<not> accepted 1 (world_info\<lparr>faults := [True]\<rparr>) \<and>
   status_code (fst (resolveAlert int4in_decimal ''1'' (world_info\<lparr>faults := [True]\<rparr>))) = 500"
proof -
  have a: "accepted 1 world_info" by (simp add: accepted_def world_info_def world0_def)
  have p7: "int4in_decimal ''7'' = Some 7" by (simp add: int4in_decimal_def digit_of_def)
  have p1: "int4in_decimal ''1'' = Some 1" by (simp add: int4in_decimal_def digit_of_def)
  have p9: "int4in_decimal ''99999999999'' = None" by (simp add: int4in_decimal_def digit_of_def)
  have ids: "alert_id ` set (alerts world_info) = {1}"
    by (simp add: world_info_def world0_def alert_row_def)
  have n: "\<not> accepted 1 (world_info\<lparr>faults := [True]\<rparr>)" by (simp add: accepted_def)
  have rows: "map (\<lambda>r. (alert_id r, alert_status r, resolved_at r))
     (alerts (snd (resolveAlert int4in_decimal ''1'' world_info))) = [(1, ''resolved'', Some 0)]"
    by (simp add: resolveAlert_def query_resolve_def issue_def p1 Let_def world_info_def
        world0_def alert_row_def resolve_rows_def)
  from resolveAlert_outcomes [of world_info int4in_decimal "''7''" 7]
    resolveAlert_outcomes [of world_info int4in_decimal "''1''" 1]
    resolveAlert_outcomes [of world_info int4in_decimal "''99999999999''" 0]
    resolveAlert_outcomes [of "world_info\<lparr>faults := [True]\<rparr>" int4in_decimal "''1''" 1]
    a p7 p1 p9 n rows
  show ?thesis
    by (simp add: ids)
qed

text \<open>
  The segment \<open>abc\<close> against a store that holds the alert 1 and accepts the query: no
  alert matches, and the answer is 500 with the error of the store, not 404.
\<close>

theorem resolveAlert_non_integer_id:
  "accepted 1 world_info \<and> int4in_decimal ''abc'' = None \<and>
   map alert_id (alerts world_info) = [1] \<and>
   resolveAlert int4in_decimal ''abc'' world_info =
     (\<lparr>status_code = 500, body = ErrorText StoreError\<rparr>,
      world_info\<lparr>calls := [UpdateAlertResolved ''abc'']\<rparr>)"
  by (simp add: accepted_def int4in_decimal_def digit_of_def resolveAlert_def query_resolve_def
      issue_def Let_def world_info_def world0_def alert_row_def)

subsection \<open>A payload that does not decode\<close>

text \<open>
  Claim C8. A message whose payload does not decode is committed; no call to the store
  is issued for it, so no metric, alert or action row is written and no node changes;
  \<open>Run\<close> goes on with the next answer of the queue.
\<close>

theorem process_message_malformed:
  assumes "unmarshal (msg_value msg) = Inl e"
  shows "process_message unmarshal msg w =
           w\<lparr>logs := logs w @ [''Error unmarshaling metric''], committed := committed w @ [msg]\<rparr> \<and>
         calls (process_message unmarshal msg w) = calls w \<and>
         gpu_metrics (process_message unmarshal msg w) = gpu_metrics w \<and>
         alerts (process_message unmarshal msg w) = alerts w \<and>
         alert_actions (process_message unmarshal msg w) = alert_actions w \<and>
         gpu_nodes (process_message unmarshal msg w) = gpu_nodes w \<and>
         Run unmarshal (Fetched msg # rest) w =
           Run unmarshal rest
             (w\<lparr>logs := logs w @ [''Error unmarshaling metric''],
                committed := committed w @ [msg]\<rparr>)"
  using assms by (simp add: process_message_def commit_def log_line_def)

theorem process_message_malformed_witness:
  "decode_sample (msg_value bad_msg) = Inl DecodeError \<and>
   calls (process_message decode_sample bad_msg world0) = [] \<and>
   committed (process_message decode_sample bad_msg world0) = [bad_msg] \<and>
   committed (Run decode_sample [Fetched bad_msg, Fetched good_msg] world0) = [bad_msg, good_msg] \<and>
   map alert_id (alerts (Run decode_sample [Fetched bad_msg, Fetched good_msg] world0)) = [1]"
proof -
  have h: "decode_sample (msg_value bad_msg) = Inl DecodeError"
    by (simp add: decode_sample_def bad_msg_def)
  have c: "calls world0 = []" "committed world0 = []" "logs world0 = []"
    by (simp_all add: world0_def)
  have g: "decode_sample (msg_value good_msg) = Inr (sample (Finite 96))"
    by (simp add: decode_sample_def good_msg_def)
  have ev: "EvaluateRules (sample (Finite 96)) = [temperature_alert (sample (Finite 96))]"
    by (simp add: EvaluateRules_def Let_def sample_def f64_gt_def memoryPercent_def f64_div_def
        f64_mul_def round_f64_half round_f64_50 mk_inf_def mk_zero_def)
  have sev: "Severity (temperature_alert (sample (Finite 96))) = ''critical''"
    by (simp add: temperature_alert_def sample_def f64_gt_def)
  let ?w = "world0\<lparr>logs := [''Error unmarshaling metric''], committed := [bad_msg]\<rparr>"
  have next_msg: "committed (process_message decode_sample good_msg ?w) = [bad_msg, good_msg] \<and>
      map alert_id (alerts (process_message decode_sample good_msg ?w)) = [1]"
    by (simp add: process_message_def g ev StoreMetric_def CreateAlert_def TakeAction_def
        severity_case_def sev issue_def Let_def log_line_def commit_def world0_def alert_row_def)
  then have fin: "committed (Run decode_sample [Fetched good_msg] ?w) = [bad_msg, good_msg] \<and>
      map alert_id (alerts (Run decode_sample [Fetched good_msg] ?w)) = [1]"
    by (simp add: log_line_def)
  from process_message_malformed [of decode_sample bad_msg DecodeError world0 "[Fetched good_msg]", OF h]
    h fin
  show ?thesis
    by (simp add: c)
qed

end
